theory Spec2Isabelle
  imports Main "HOL-Library.Word"
begin

unbundle bit_operations_syntax

section \<open>The MetaMask provider of mx-sdk-js-metamask-provider\<close>

text \<open>
  The class \<^verbatim>\<open>MetamaskProvider\<close> keeps two fields, \<^verbatim>\<open>account\<close> and
  \<^verbatim>\<open>initialized\<close>, and forwards every request to the wallet through
  \<^verbatim>\<open>safeWindow?.ethereum?.request\<close>. Each method is embedded as a function that takes
  the world it runs in and the provider before the call, and returns what the promise
  settles to (\<open>Inl\<close> a rejection, \<open>Inr\<close> a value), the provider after the call and the
  calls that left the provider, in order. A method runs to completion before the next one
  starts: overlapping calls are outside the model.
\<close>

subsection \<open>Values, errors and the world\<close>

text \<open>
  TypeScript's types are erased at run time and what the wallet answers is only cast
  (\<^verbatim>\<open>as string\<close>, \<^verbatim>\<open>as string[]\<close>), so an answer is any JavaScript value that JSON can
  carry. Numbers are integers here; no method reads one.
\<close>

datatype jsval =
    JUndefined
  | JNull
  | JBool bool
  | JNum int
  | JStr string
  | JArr "jsval list"
  | JObj "(string \<times> jsval) list"

text \<open>\<^verbatim>\<open>Boolean(v)\<close>, the test behind \<^verbatim>\<open>!v\<close> and \<^verbatim>\<open>if (v)\<close>.\<close>

fun truthy :: "jsval \<Rightarrow> bool" where
  "truthy JUndefined = False"
| "truthy JNull = False"
| "truthy (JBool b) = b"
| "truthy (JNum n) = (n \<noteq> 0)"
| "truthy (JStr s) = (s \<noteq> [])"
| "truthy (JArr xs) = True"
| "truthy (JObj kvs) = True"

text \<open>
  What a method can reject with: \<^verbatim>\<open>new Error(message)\<close>, the three error classes
  imported from \<^verbatim>\<open>./errors\<close>, the \<^verbatim>\<open>TypeError\<close> JavaScript raises when a method is
  called on a value that has none, and whatever a call outside the class threw.
\<close>

datatype error =
    Error string
  | ErrAccountNotConnected
  | ErrCannotSignSingleTransaction
  | ErrTransactionCancelled
  | TypeError
  | Thrown jsval

text \<open>
  The four requests the class sends to the snap (\<^verbatim>\<open>request.method\<close> with
  \<^verbatim>\<open>request.params\<close>), and the envelope \<^verbatim>\<open>wallet_invokeSnap\<close> with its \<^verbatim>\<open>snapId\<close>.
\<close>

datatype snap_request =
    mvx_getAddress
  | mvx_signAuthToken string
  | mvx_signTransactions "jsval list"
  | mvx_signMessage string

datatype rpc = wallet_invokeSnap string snap_request

text \<open>
  A call that leaves the provider, with what it settled to. \<^verbatim>\<open>connectSnap\<close> and
  \<^verbatim>\<open>getSnap\<close> are the two steps of the handshake.
\<close>

datatype call =
    ConnectSnap "error + jsval"
  | GetSnap "error + jsval"
  | Request rpc "error + jsval"

record ethereum =
  isMetaMask :: bool
  request :: "rpc \<Rightarrow> error + jsval"

text \<open>
  The world of one call. \<^verbatim>\<open>safeWindow.ethereum\<close> is there or not. \<^verbatim>\<open>connectSnap\<close> and
  \<^verbatim>\<open>getSnap\<close> (module \<^verbatim>\<open>./snap\<close>) and \<^verbatim>\<open>defaultSnapOrigin\<close> (module \<^verbatim>\<open>./config\<close>) are
  not among the sources, so what the two functions settle to and the value of the constant
  are parameters. The remaining fields are the functions of \<^verbatim>\<open>@multiversx/sdk-core\<close> and
  of \<^verbatim>\<open>Buffer\<close> that the class calls; \<open>'tx\<close> is \<^verbatim>\<open>Transaction\<close> and \<open>'addr\<close> is
  \<^verbatim>\<open>Address\<close>, both opaque to the class.
\<close>

record ('tx, 'addr) world =
  ethereum :: "ethereum option"
  connectSnap :: "error + jsval"
  getSnap :: "error + jsval"
  defaultSnapOrigin :: string
  toPlainObject :: "'tx \<Rightarrow> error + jsval"
  JSON_parse :: "jsval \<Rightarrow> error + jsval"
  fromPlainObject :: "jsval \<Rightarrow> error + 'tx"
  Address_fromBech32 :: "jsval \<Rightarrow> error + 'addr"
  Buffer_toString :: "8 word list \<Rightarrow> string"
  Buffer_from_other :: "jsval \<Rightarrow> error + 8 word list"

subsection \<open>The provider\<close>

text \<open>
  \<^verbatim>\<open>IMetamaskWalletAccount\<close>. An optional field that is absent reads \<^verbatim>\<open>undefined\<close>.
  \<^verbatim>\<open>address\<close> and \<^verbatim>\<open>signature\<close> are assigned from answers of the wallet, so they are
  values, not strings.
\<close>

record account =
  address :: jsval
  name :: jsval
  signature :: jsval

record provider =
  account :: account
  initialized :: bool

text \<open>\<^verbatim>\<open>{ address: '' }\<close>\<close>

definition empty_account :: account where
  "empty_account = \<lparr>address = JStr [], name = JUndefined, signature = JUndefined\<rparr>"

text \<open>The field initialisers of the class.\<close>

definition new_provider :: provider where
  "new_provider = \<lparr>account = empty_account, initialized = False\<rparr>"

type_synonym 'a outcome = "(error + 'a) \<times> provider \<times> call list"

definition isMetamaskInstalled :: "('tx, 'addr) world \<Rightarrow> bool" where
  "isMetamaskInstalled w =
     (case ethereum w of None \<Rightarrow> False | Some e \<Rightarrow> isMetaMask e)"

definition setAddress :: "string \<Rightarrow> provider \<Rightarrow> provider" where
  "setAddress a s = s\<lparr>account := (account s)\<lparr>address := JStr a\<rparr>\<rparr>"

definition getAccount :: "provider \<Rightarrow> account" where
  "getAccount s = account s"

definition setAccount :: "account \<Rightarrow> provider \<Rightarrow> provider" where
  "setAccount a s = s\<lparr>account := a\<rparr>"

text \<open>
  The \<^verbatim>\<open>try\<close> block of \<^verbatim>\<open>init\<close>: the first rejection leaves the block; the assignment
  is reached only when both awaits resolved.
\<close>

definition init_try :: "('tx, 'addr) world \<Rightarrow> provider \<Rightarrow> unit outcome" where
  "init_try w s =
     (case connectSnap w of
        Inl err \<Rightarrow> (Inl err, s, [ConnectSnap (Inl err)])
      | Inr u \<Rightarrow>
          (case getSnap w of
             Inl err \<Rightarrow> (Inl err, s, [ConnectSnap (Inr u), GetSnap (Inl err)])
           | Inr installedSnap \<Rightarrow>
               (Inr (), s\<lparr>initialized := (installedSnap \<noteq> JUndefined)\<rparr>,
                [ConnectSnap (Inr u), GetSnap (Inr installedSnap)])))"

definition init :: "('tx, 'addr) world \<Rightarrow> provider \<Rightarrow> bool outcome" where
  "init w s =
     (let hasMetamask = isMetamaskInstalled w in
      if hasMetamask \<and> \<not> initialized s then
        (case init_try w s of
           (Inl err, s1, cs) \<Rightarrow>
             (let s2 = s1\<lparr>initialized := False\<rparr> in (Inr (initialized s2), s2, cs))
         | (Inr _, s1, cs) \<Rightarrow> (Inr (initialized s1), s1, cs))
      else (Inr (initialized s), s, []))"

text \<open>
  \<^verbatim>\<open>safeWindow?.ethereum?.request(args)\<close>: without \<^verbatim>\<open>ethereum\<close> the optional chain
  stops, nothing is called and the value is \<^verbatim>\<open>undefined\<close>.
\<close>

definition ethereum_request ::
  "('tx, 'addr) world \<Rightarrow> snap_request \<Rightarrow> (error + jsval) \<times> call list" where
  "ethereum_request w r =
     (case ethereum w of
        None \<Rightarrow> (Inr JUndefined, [])
      | Some e \<Rightarrow>
          (let args = wallet_invokeSnap (defaultSnapOrigin w) r
           in (request e args, [Request args (request e args)])))"

text \<open>The message of the three \<^verbatim>\<open>new Error(...)\<close>.\<close>

definition not_initialised :: string where
  "not_initialised = ''Metamask provider is not initialised, call init() first''"

text \<open>\<^verbatim>\<open>options: { token?: string } = {}\<close>\<close>

record login_options =
  token :: "string option"

text \<open>String concatenation with an optional string: \<^verbatim>\<open>'' + undefined\<close> is \<^verbatim>\<open>'undefined'\<close>.\<close>

definition concat_token :: "string \<Rightarrow> string option \<Rightarrow> string" where
  "concat_token m t = m @ (case t of None \<Rightarrow> ''undefined'' | Some x \<Rightarrow> x)"

text \<open>
  \<^verbatim>\<open>login\<close>. The \<^verbatim>\<open>catch\<close> rethrows what it caught, so a rejection leaves the method
  with the assignments made so far in place.
\<close>

definition login ::
  "('tx, 'addr) world \<Rightarrow> login_options \<Rightarrow> provider \<Rightarrow> account outcome" where
  "login w options s =
     (if \<not> initialized s then
        (Inl (Error (concat_token not_initialised (token options))), s, [])
      else
        (case ethereum_request w mvx_getAddress of
           (Inl err, cs1) \<Rightarrow> (Inl err, s, cs1)
         | (Inr a, cs1) \<Rightarrow>
             (let s1 = s\<lparr>account := (account s)\<lparr>address := a\<rparr>\<rparr> in
              (case token options of
                 None \<Rightarrow> (Inr (account s1), s1, cs1)
               | Some t \<Rightarrow>
                   if t = [] then (Inr (account s1), s1, cs1)
                   else
                     (case ethereum_request w (mvx_signAuthToken t) of
                        (Inl err, cs2) \<Rightarrow> (Inl err, s1, cs1 @ cs2)
                      | (Inr tokenSigned, cs2) \<Rightarrow>
                          (let s2 = s1\<lparr>account := (account s1)\<lparr>signature := tokenSigned\<rparr>\<rparr>
                           in (Inr (account s2), s2, cs1 @ cs2)))))))"

definition logout :: "provider \<Rightarrow> bool outcome" where
  "logout s =
     (if \<not> initialized s then (Inl (Error not_initialised), s, [])
      else (Inr True, s\<lparr>account := empty_account\<rparr>, []))"

text \<open>
  \<^verbatim>\<open>this.account ? this.account.address : ''\<close>: the field holds an object from the
  constructor on, and \<^verbatim>\<open>setAccount\<close> takes an object by its type, so the test is true.
\<close>

definition getAddress :: "provider \<Rightarrow> jsval outcome" where
  "getAddress s =
     (if \<not> initialized s then (Inl (Error not_initialised), s, [])
      else (Inr (address (account s)), s, []))"

definition isInitialized :: "provider \<Rightarrow> bool" where
  "isInitialized s = initialized s"

definition isConnected :: "provider \<Rightarrow> bool" where
  "isConnected s = truthy (address (account s))"

definition cancelAction :: "provider \<Rightarrow> bool" where
  "cancelAction s = False"

subsection \<open>Signing transactions\<close>

text \<open>
  \<^verbatim>\<open>xs.map(f)\<close> where \<open>f\<close> may throw: the elements are visited from the left and the
  first exception ends the loop.
\<close>

fun map_throwing :: "('a \<Rightarrow> error + 'b) \<Rightarrow> 'a list \<Rightarrow> error + 'b list" where
  "map_throwing f [] = Inr []"
| "map_throwing f (x # xs) =
     (case f x of
        Inl err \<Rightarrow> Inl err
      | Inr y \<Rightarrow> (case map_throwing f xs of Inl err \<Rightarrow> Inl err | Inr ys \<Rightarrow> Inr (y # ys)))"

text \<open>\<^verbatim>\<open>Transaction.fromPlainObject(JSON.parse(transaction))\<close>\<close>

definition parse_transaction :: "('tx, 'addr) world \<Rightarrow> jsval \<Rightarrow> error + 'tx" where
  "parse_transaction w t =
     (case JSON_parse w t of Inl err \<Rightarrow> Inl err | Inr plain \<Rightarrow> fromPlainObject w plain)"

text \<open>
  \<^verbatim>\<open>metamaskReponse.map(...)\<close>: only an array has \<^verbatim>\<open>map\<close>; on \<^verbatim>\<open>undefined\<close> and
  \<^verbatim>\<open>null\<close> the property read raises a \<^verbatim>\<open>TypeError\<close>, on the other values the call does.
\<close>

definition map_response :: "('tx, 'addr) world \<Rightarrow> jsval \<Rightarrow> error + 'tx list" where
  "map_response w r =
     (case r of JArr xs \<Rightarrow> map_throwing (parse_transaction w) xs | _ \<Rightarrow> Inl TypeError)"

text \<open>The \<^verbatim>\<open>try\<close> block of \<^verbatim>\<open>signTransactions\<close>. It reads no field of the provider.\<close>

definition signTransactions_try ::
  "('tx, 'addr) world \<Rightarrow> 'tx list \<Rightarrow> (error + 'tx list) \<times> call list" where
  "signTransactions_try w transactions =
     (case map_throwing (toPlainObject w) transactions of
        Inl err \<Rightarrow> (Inl err, [])
      | Inr transactionsPlain \<Rightarrow>
          (case ethereum_request w (mvx_signTransactions transactionsPlain) of
             (Inl err, cs) \<Rightarrow> (Inl err, cs)
           | (Inr metamaskReponse, cs) \<Rightarrow> (map_response w metamaskReponse, cs)))"

definition signTransactions ::
  "('tx, 'addr) world \<Rightarrow> 'tx list \<Rightarrow> (error + 'tx list) \<times> call list" where
  "signTransactions w transactions =
     (case signTransactions_try w transactions of
        (Inl err, cs) \<Rightarrow> (Inl ErrTransactionCancelled, cs)
      | (Inr transactionsResponse, cs) \<Rightarrow> (Inr transactionsResponse, cs))"

text \<open>
  \<^verbatim>\<open>signTransaction\<close>: the awaited rejection of \<^verbatim>\<open>signTransactions\<close> passes through, a
  list that has not exactly one element is refused, and otherwise element 0 is returned.
\<close>

definition signTransaction ::
  "('tx, 'addr) world \<Rightarrow> 'tx \<Rightarrow> (error + 'tx) \<times> call list" where
  "signTransaction w transaction =
     (case signTransactions w [transaction] of
        (Inl err, cs) \<Rightarrow> (Inl err, cs)
      | (Inr signedTransactions, cs) \<Rightarrow>
          (if length signedTransactions \<noteq> 1 then (Inl ErrCannotSignSingleTransaction, cs)
           else (Inr (signedTransactions ! 0), cs)))"

subsection \<open>Signing a message\<close>

text \<open>
  \<^verbatim>\<open>Message\<close> of \<^verbatim>\<open>@multiversx/sdk-core\<close>: \<^verbatim>\<open>address\<close> and \<^verbatim>\<open>signature\<close> are
  optional. The fields are public, so a message may hold any version, 0 included.
\<close>

record 'addr message =
  data :: "8 word list"
  msg_address :: "'addr option"
  signer :: string
  version :: nat
  msg_signature :: "8 word list option"

text \<open>
  The constructor of \<^verbatim>\<open>Message\<close>, given its options: it stores the data, the address
  and the signature, and replaces a falsy version or signer by the library's default
  (\<^verbatim>\<open>options.version || DEFAULT_MESSAGE_VERSION\<close>, \<^verbatim>\<open>options.signer || UNKNOWN_SIGNER\<close>).
\<close>

definition DEFAULT_MESSAGE_VERSION :: nat where
  "DEFAULT_MESSAGE_VERSION = 1"

definition UNKNOWN_SIGNER :: string where
  "UNKNOWN_SIGNER = ''unknown''"

definition new_Message :: "'addr message \<Rightarrow> 'addr message" where
  "new_Message options =
     \<lparr>data = data options, msg_address = msg_address options,
      signer = (if signer options = [] then UNKNOWN_SIGNER else signer options),
      version = (if version options = 0 then DEFAULT_MESSAGE_VERSION else version options),
      msg_signature = msg_signature options\<rparr>"

text \<open>
  \<^verbatim>\<open>Buffer.from(s, 'hex')\<close> on a string, as Node decodes it: two digits make a byte, and
  the decoding stops at the first pair that is not two hexadecimal digits; a last single
  character is dropped.
\<close>

definition unhex :: "char \<Rightarrow> 8 word option" where
  "unhex c =
     (let n = (of_char c :: nat) in
      if 48 \<le> n \<and> n \<le> 57 then Some (of_nat (n - 48))
      else if 97 \<le> n \<and> n \<le> 102 then Some (of_nat (n - 87))
      else if 65 \<le> n \<and> n \<le> 70 then Some (of_nat (n - 55))
      else None)"

fun hex_decode :: "string \<Rightarrow> 8 word list" where
  "hex_decode (a # b # rest) =
     (case unhex a of
        None \<Rightarrow> []
      | Some hi \<Rightarrow>
          (case unhex b of
             None \<Rightarrow> []
           | Some lo \<Rightarrow> (push_bit 4 hi OR lo) # hex_decode rest))"
| "hex_decode _ = []"

text \<open>\<^verbatim>\<open>Buffer.from(v, 'hex')\<close> on any value: a string is decoded, the rest is the platform's.\<close>

definition Buffer_from_hex :: "('tx, 'addr) world \<Rightarrow> jsval \<Rightarrow> error + 8 word list" where
  "Buffer_from_hex w v = (case v of JStr h \<Rightarrow> Inr (hex_decode h) | _ \<Rightarrow> Buffer_from_other w v)"

definition ensureConnected :: "('tx, 'addr) world \<Rightarrow> provider \<Rightarrow> error + unit" where
  "ensureConnected w s =
     (let hasMetamask = isMetamaskInstalled w in
      if \<not> truthy (address (account s)) \<or> \<not> hasMetamask then Inl ErrAccountNotConnected
      else Inr ())"

text \<open>
  \<^verbatim>\<open>messageToSign.address ?? Address.fromBech32(this.account.address)\<close>: the right
  operand is evaluated only when the message has no address, and it may throw.
\<close>

definition resolve_address ::
  "('tx, 'addr) world \<Rightarrow> 'addr message \<Rightarrow> provider \<Rightarrow> error + 'addr" where
  "resolve_address w messageToSign s =
     (case msg_address messageToSign of
        Some a \<Rightarrow> Inr a
      | None \<Rightarrow> Address_fromBech32 w (address (account s)))"

text \<open>
  \<^verbatim>\<open>signMessage\<close>. The properties of the object literal are evaluated in the order they
  are written, the address before the signature. The \<^verbatim>\<open>catch\<close> rethrows.
\<close>

definition signMessage ::
  "('tx, 'addr) world \<Rightarrow> 'addr message \<Rightarrow> provider \<Rightarrow> (error + 'addr message) \<times> call list" where
  "signMessage w messageToSign s =
     (case ensureConnected w s of
        Inl err \<Rightarrow> (Inl err, [])
      | Inr _ \<Rightarrow>
          (case ethereum_request w (mvx_signMessage (Buffer_toString w (data messageToSign))) of
             (Inl err, cs) \<Rightarrow> (Inl err, cs)
           | (Inr metamaskReponse, cs) \<Rightarrow>
               (case resolve_address w messageToSign s of
                  Inl err \<Rightarrow> (Inl err, cs)
                | Inr a \<Rightarrow>
                    (case Buffer_from_hex w metamaskReponse of
                       Inl err \<Rightarrow> (Inl err, cs)
                     | Inr sig \<Rightarrow>
                         (Inr (new_Message
                                 \<lparr>data = data messageToSign, msg_address = Some a,
                                  signer = ''metamask'', version = version messageToSign,
                                  msg_signature = Some sig\<rparr>), cs)))))"

subsection \<open>The error kind of a provider that is not initialised\<close>

text \<open>
  The class has no error class of its own for this case: it throws a plain
  \<^verbatim>\<open>Error\<close> whose message starts with the text of \<open>not_initialised\<close>.
\<close>

definition is_NotInitialized :: "error \<Rightarrow> bool" where
  "is_NotInitialized e =
     (case e of
        Error m \<Rightarrow> take (length not_initialised) m = not_initialised
      | _ \<Rightarrow> False)"

subsection \<open>Runs of the provider\<close>

text \<open>
  The public methods of the class, and what one call does to the provider. The signing
  methods and the accessors do not assign to a field.
\<close>

datatype ('tx, 'addr) op =
    Init
  | Login login_options
  | Logout
  | GetAddress
  | GetAccount
  | IsInitialized
  | IsConnected
  | SetAddress string
  | SetAccount account
  | SignTransaction 'tx
  | SignTransactions "'tx list"
  | SignMessage "'addr message"
  | CancelAction

fun step :: "('tx, 'addr) world \<Rightarrow> ('tx, 'addr) op \<Rightarrow> provider \<Rightarrow> provider \<times> call list" where
  "step w Init s = snd (init w s)"
| "step w (Login options) s = snd (login w options s)"
| "step w Logout s = snd (logout s)"
| "step w GetAddress s = snd (getAddress s)"
| "step w GetAccount s = (s, [])"
| "step w IsInitialized s = (s, [])"
| "step w IsConnected s = (s, [])"
| "step w (SetAddress a) s = (setAddress a s, [])"
| "step w (SetAccount a) s = (setAccount a s, [])"
| "step w (SignTransaction t) s = (s, snd (signTransaction w t))"
| "step w (SignTransactions ts) s = (s, snd (signTransactions w ts))"
| "step w (SignMessage m) s = (s, snd (signMessage w m s))"
| "step w CancelAction s = (s, [])"

text \<open>
  A run is a list of calls, each in the world of its moment; it yields the provider at the
  end and every call that left it, oldest first.
\<close>

fun run ::
  "(('tx, 'addr) world \<times> ('tx, 'addr) op) list \<Rightarrow> provider \<times> call list \<Rightarrow> provider \<times> call list" where
  "run [] sc = sc"
| "run ((w, c) # rest) (s, cs) =
     (case step w c s of (s', cs') \<Rightarrow> run rest (s', cs @ cs'))"

fun is_setter :: "('tx, 'addr) op \<Rightarrow> bool" where
  "is_setter (SetAddress a) = True"
| "is_setter (SetAccount a) = True"
| "is_setter _ = False"

subsection \<open>Test doubles\<close>

text \<open>
  Concrete worlds for evaluating the methods. A transaction is the string of its plain
  form, an address is its bech32 string, and \<^verbatim>\<open>Address.fromBech32\<close> accepts the strings
  that start with \<^verbatim>\<open>erd1\<close> and throws on the others, as the library does on a string
  that is no bech32 address.
\<close>

definition stub_world ::
  "ethereum option \<Rightarrow> error + jsval \<Rightarrow> error + jsval \<Rightarrow> (string, string) world" where
  "stub_world eth c g =
     \<lparr>ethereum = eth, connectSnap = c, getSnap = g,
      defaultSnapOrigin = ''snap'',
      toPlainObject = (\<lambda>t. Inr (JStr t)),
      JSON_parse = (\<lambda>v. Inr v),
      fromPlainObject = (\<lambda>v. case v of JStr t \<Rightarrow> Inr t | _ \<Rightarrow> Inl TypeError),
      Address_fromBech32 =
        (\<lambda>v. case v of
               JStr a \<Rightarrow>
                 if take 4 a = ''erd1'' then Inr a else Inl (Thrown (JStr ''bad address''))
             | _ \<Rightarrow> Inl TypeError),
      Buffer_toString = map (\<lambda>b. char_of (unat b)),
      Buffer_from_other = (\<lambda>v. Inl TypeError)\<rparr>"

definition wallet :: "(snap_request \<Rightarrow> error + jsval) \<Rightarrow> ethereum" where
  "wallet f = \<lparr>isMetaMask = True, request = (\<lambda>r. case r of wallet_invokeSnap i q \<Rightarrow> f q)\<rparr>"

text \<open>A wallet that answers every request; it signs a batch by returning it.\<close>

definition answers_ok :: "snap_request \<Rightarrow> error + jsval" where
  "answers_ok q =
     (case q of
        mvx_getAddress \<Rightarrow> Inr (JStr ''erd1...'')
      | mvx_signAuthToken t \<Rightarrow> Inr (JStr ''deadbeef'')
      | mvx_signTransactions ps \<Rightarrow> Inr (JArr ps)
      | mvx_signMessage m \<Rightarrow> Inr (JStr ''aa''))"

text \<open>A wallet that gives the address and rejects the rest.\<close>

definition answers_address_only :: "snap_request \<Rightarrow> error + jsval" where
  "answers_address_only q =
     (case q of
        mvx_getAddress \<Rightarrow> Inr (JStr ''erd1...'')
      | _ \<Rightarrow> Inl (Thrown (JStr ''User rejected the request'')))"

text \<open>A wallet that returns every transaction of a batch twice.\<close>

definition answers_twice :: "snap_request \<Rightarrow> error + jsval" where
  "answers_twice q =
     (case q of
        mvx_signTransactions ps \<Rightarrow> Inr (JArr (ps @ ps))
      | _ \<Rightarrow> Inr JNull)"

text \<open>A wallet whose answers are no serialised transactions.\<close>

definition answers_malformed :: "snap_request \<Rightarrow> error + jsval" where
  "answers_malformed q = Inr (JArr [JNum 1])"

definition answers_rejected :: "snap_request \<Rightarrow> error + jsval" where
  "answers_rejected q = Inl (Thrown (JStr ''User rejected the request''))"

definition world_ok :: "(string, string) world" where
  "world_ok = stub_world (Some (wallet answers_ok)) (Inr (JObj [])) (Inr (JObj []))"

definition world_address_only :: "(string, string) world" where
  "world_address_only =
     stub_world (Some (wallet answers_address_only)) (Inr (JObj [])) (Inr (JObj []))"

definition world_twice :: "(string, string) world" where
  "world_twice = stub_world (Some (wallet answers_twice)) (Inr (JObj [])) (Inr (JObj []))"

definition world_malformed :: "(string, string) world" where
  "world_malformed = stub_world (Some (wallet answers_malformed)) (Inr (JObj [])) (Inr (JObj []))"

definition world_rejected :: "(string, string) world" where
  "world_rejected =
     stub_world (Some (wallet answers_rejected))
       (Inl (Thrown (JStr ''User rejected the request'')))
       (Inl (Thrown (JStr ''User rejected the request'')))"

text \<open>No \<^verbatim>\<open>window.ethereum\<close> at all.\<close>

definition world_absent :: "(string, string) world" where
  "world_absent =
     stub_world None (Inl (Thrown (JStr ''no provider''))) (Inl (Thrown (JStr ''no provider'')))"

definition initialized_provider :: provider where
  "initialized_provider = new_provider\<lparr>initialized := True\<rparr>"

text \<open>A provider whose address is not a bech32 address.\<close>

definition provider_abc :: provider where
  "provider_abc = setAddress ''abc'' initialized_provider"

definition provider_erd :: provider where
  "provider_erd = setAddress ''erd1...'' initialized_provider"

definition message_hi :: "string message" where
  "message_hi =
     \<lparr>data = [104, 105], msg_address = None, signer = ''unknown'', version = 1,
      msg_signature = None\<rparr>"

text \<open>A message that carries its own address and whose version was set to 0.\<close>

definition message_v0 :: "string message" where
  "message_v0 =
     \<lparr>data = [104, 105], msg_address = Some ''erd1other'', signer = ''unknown'', version = 0,
      msg_signature = None\<rparr>"

section \<open>Properties\<close>

subsection \<open>Helper lemmas\<close>

lemmas stub_defs =
  stub_world_def wallet_def answers_ok_def answers_address_only_def answers_twice_def
  answers_malformed_def world_malformed_def answers_rejected_def world_ok_def world_address_only_def world_twice_def
  world_rejected_def world_absent_def initialized_provider_def provider_abc_def
  provider_erd_def message_hi_def message_v0_def new_provider_def empty_account_def setAddress_def

lemmas method_defs =
  init_def init_try_def login_def logout_def getAddress_def ethereum_request_def
  isMetamaskInstalled_def isConnected_def signTransactions_def signTransactions_try_def
  signTransaction_def signMessage_def ensureConnected_def resolve_address_def
  Buffer_from_hex_def map_response_def parse_transaction_def unhex_def concat_token_def
  new_Message_def DEFAULT_MESSAGE_VERSION_def UNKNOWN_SIGNER_def
  not_initialised_def is_NotInitialized_def

text \<open>A property that every call of a run keeps holds at the end of the run.\<close>

lemma run_invariant:
  assumes pres: "\<And>w c s cs s1 cs1.
      (w, c) \<in> set ops \<Longrightarrow> P s cs \<Longrightarrow> step w c s = (s1, cs1) \<Longrightarrow> P s1 (cs @ cs1)"
    and start: "P s cs"
    and fin: "run ops (s, cs) = (s', cs')"
  shows "P s' cs'"
  using assms
proof (induction ops arbitrary: s cs)
  case Nil
  then show ?case by simp
next
  case (Cons x ops)
  obtain w c where x: "x = (w, c)" by (cases x)
  obtain s1 cs1 where st: "step w c s = (s1, cs1)" by (cases "step w c s")
  from Cons.prems(3) x st have r: "run ops (s1, cs @ cs1) = (s', cs')" by simp
  have p1: "P s1 (cs @ cs1)"
    using Cons.prems(1) [of w c s cs s1 cs1] Cons.prems(2) x st by simp
  show ?case
  proof (rule Cons.IH [OF _ p1 r])
    fix w c s cs s1 cs1
    assume "(w, c) \<in> set ops" "P s cs" "step w c s = (s1, cs1)"
    then show "P s1 (cs @ cs1)" using Cons.prems(1) [of w c s cs s1 cs1] by simp
  qed
qed

text \<open>Only \<^verbatim>\<open>init\<close> assigns to \<^verbatim>\<open>initialized\<close>, and it sets it after a handshake.\<close>

lemma init_initialized:
  "init w s = (r, s', cs') \<Longrightarrow> initialized s' \<Longrightarrow> \<not> initialized s \<Longrightarrow>
   \<exists>u v. v \<noteq> JUndefined \<and> cs' = [ConnectSnap (Inr u), GetSnap (Inr v)]"
  by (auto simp add: init_def init_try_def Let_def split: sum.splits if_splits)

lemma login_initialized: "initialized (fst (snd (login w options s))) = initialized s"
  by (simp add: login_def ethereum_request_def Let_def split: sum.splits option.splits)

lemma step_initialized:
  assumes st: "step w c s = (s', cs')"
    and after: "initialized s'"
    and before: "\<not> initialized s"
  shows "\<exists>u v. v \<noteq> JUndefined \<and> cs' = [ConnectSnap (Inr u), GetSnap (Inr v)]"
proof (cases c)
  case Init
  with st have "init w s = (fst (init w s), s', cs')" by (cases "init w s") simp
  from init_initialized [OF this after before] show ?thesis .
next
  case (Login options)
  with st after before login_initialized [of w options s] show ?thesis by simp
qed (use st after before in
    \<open>auto simp add: logout_def getAddress_def setAddress_def setAccount_def split: if_splits\<close>)

lemma run_handshake:
  assumes "run ops (new_provider, []) = (s, cs)" and "initialized s"
  shows "\<exists>pre post u v. v \<noteq> JUndefined \<and>
           cs = pre @ [ConnectSnap (Inr u), GetSnap (Inr v)] @ post"
proof -
  let ?P = "\<lambda>s cs. initialized s \<longrightarrow>
     (\<exists>pre post u v. v \<noteq> JUndefined \<and> cs = pre @ [ConnectSnap (Inr u), GetSnap (Inr v)] @ post)"
  have "?P s cs"
  proof (rule run_invariant [where P = ?P and ops = ops, OF _ _ assms(1)])
    show "?P new_provider []" by (simp add: new_provider_def)
  next
    fix w c s cs s1 cs1
    assume "(w, c) \<in> set ops" and p: "?P s cs" and st: "step w c s = (s1, cs1)"
    show "?P s1 (cs @ cs1)"
    proof
      assume i1: "initialized s1"
      show "\<exists>pre post u v. v \<noteq> JUndefined \<and>
              cs @ cs1 = pre @ [ConnectSnap (Inr u), GetSnap (Inr v)] @ post"
      proof (cases "initialized s")
        case True
        with p obtain pre post u v where
          "v \<noteq> JUndefined" "cs = pre @ [ConnectSnap (Inr u), GetSnap (Inr v)] @ post"
          by blast
        then have "cs @ cs1 = pre @ [ConnectSnap (Inr u), GetSnap (Inr v)] @ (post @ cs1)"
          by simp
        with \<open>v \<noteq> JUndefined\<close> show ?thesis by blast
      next
        case False
        from step_initialized [OF st i1 False] obtain u v where
          "v \<noteq> JUndefined" "cs1 = [ConnectSnap (Inr u), GetSnap (Inr v)]" by blast
        then have "cs @ cs1 = cs @ [ConnectSnap (Inr u), GetSnap (Inr v)] @ []" by simp
        with \<open>v \<noteq> JUndefined\<close> show ?thesis by blast
      qed
    qed
  qed
  with assms(2) show ?thesis by simp
qed

text \<open>
  A call that is not a setter keeps: a truthy address belongs to an initialised provider
  and is an answer to an \<^verbatim>\<open>mvx_getAddress\<close> request.
\<close>

lemma step_address:
  assumes ns: "\<not> is_setter c"
    and inv: "isConnected s \<longrightarrow> initialized s \<and>
        (\<exists>i. Request (wallet_invokeSnap i mvx_getAddress) (Inr (address (account s))) \<in> set cs)"
    and st: "step w c s = (s1, cs1)"
  shows "isConnected s1 \<longrightarrow> initialized s1 \<and>
        (\<exists>i. Request (wallet_invokeSnap i mvx_getAddress) (Inr (address (account s1)))
               \<in> set (cs @ cs1))"
proof (cases c)
  case Init
  with inv st show ?thesis
    by (auto simp add: init_def init_try_def Let_def isConnected_def split: sum.splits if_splits)
next
  case (Login options)
  with inv st show ?thesis
    by (auto simp add: login_def ethereum_request_def Let_def isConnected_def
        split: sum.splits option.splits if_splits)
next
  case Logout
  with inv st show ?thesis
    by (auto simp add: logout_def isConnected_def empty_account_def split: if_splits)
next
  case GetAddress
  with inv st show ?thesis
    by (auto simp add: getAddress_def isConnected_def split: if_splits)
qed (use ns inv st in auto)

text \<open>The bytes of \<^verbatim>\<open>hi\<close> as characters.\<close>

lemma char_of_hi: "char_of (104 :: nat) = CHR ''h''" "char_of (105 :: nat) = CHR ''i''"
  by code_simp+

text \<open>The hexadecimal decoding on a few strings: an odd last digit and a bad pair.\<close>

lemma hex_decode_examples:
  "hex_decode ''00ff'' = [0x00, 0xFF]"
  "hex_decode ''DeadBeef'' = [0xDE, 0xAD, 0xBE, 0xEF]"
  "hex_decode ''abc'' = [0xAB]"
  "hex_decode ''12zz34'' = [0x12]"
  by (simp_all add: unhex_def)

subsection \<open>init\<close>

text \<open>
  C1 (as the claim states it, refuted). The claim lets \<^verbatim>\<open>init\<close> return false whenever
  the extension is absent. Once a handshake has succeeded, \<^verbatim>\<open>init\<close> returns true in a
  world without \<^verbatim>\<open>window.ethereum\<close>: the guard \<^verbatim>\<open>hasMetamask && !this.initialized\<close>
  skips the handshake and the method returns the flag.
\<close>

theorem init_true_without_extension:
  "init world_ok new_provider =
     (Inr True, initialized_provider, [ConnectSnap (Inr (JObj [])), GetSnap (Inr (JObj []))])
   \<and> \<not> isMetamaskInstalled world_absent
   \<and> init world_absent initialized_provider = (Inr True, initialized_provider, [])"
  by (simp add: init_def init_try_def isMetamaskInstalled_def stub_defs)

text \<open>
  C1 (amended). \<^verbatim>\<open>init\<close> never throws: in every world and from every provider it
  returns a boolean. Called while \<^verbatim>\<open>initialized\<close> is false, it returns false whenever
  the extension is absent or a step of the handshake rejects, and when it returns true the
  extension is present, \<^verbatim>\<open>connectSnap\<close> then \<^verbatim>\<open>getSnap\<close> were called, both resolved and
  \<^verbatim>\<open>getSnap\<close> gave a snap. Called while \<^verbatim>\<open>initialized\<close> is true, it returns true
  whatever the world. Over a run from a new provider, a true result always comes after a
  handshake whose two steps resolved, one right after the other.
\<close>

theorem init_returns_boolean:
  "(\<exists>b. fst (init w s) = Inr b)
   \<and> (\<not> initialized s \<longrightarrow>
        (\<not> isMetamaskInstalled w \<or> isl (connectSnap w) \<or> isl (getSnap w)) \<longrightarrow>
        fst (init w s) = Inr False)
   \<and> (\<not> initialized s \<longrightarrow> fst (init w s) = Inr True \<longrightarrow>
        isMetamaskInstalled w \<and>
        (\<exists>u v. connectSnap w = Inr u \<and> getSnap w = Inr v \<and> v \<noteq> JUndefined \<and>
               snd (snd (init w s)) = [ConnectSnap (Inr u), GetSnap (Inr v)]))
   \<and> (initialized s \<longrightarrow> fst (init w s) = Inr True)
   \<and> (run ops (new_provider, []) = (s, cs) \<longrightarrow> fst (init w s) = Inr True \<longrightarrow>
        (\<exists>pre post u v. v \<noteq> JUndefined \<and>
           cs @ snd (snd (init w s)) = pre @ [ConnectSnap (Inr u), GetSnap (Inr v)] @ post))"
proof -
  have total: "\<exists>b. fst (init w s) = Inr b"
    by (auto simp add: init_def Let_def split: sum.splits prod.splits)
  have fails: "\<not> initialized s \<longrightarrow>
      (\<not> isMetamaskInstalled w \<or> isl (connectSnap w) \<or> isl (getSnap w)) \<longrightarrow>
      fst (init w s) = Inr False"
    by (auto simp add: init_def init_try_def Let_def split: sum.splits)
  have succeeds: "\<not> initialized s \<longrightarrow> fst (init w s) = Inr True \<longrightarrow>
      isMetamaskInstalled w \<and>
      (\<exists>u v. connectSnap w = Inr u \<and> getSnap w = Inr v \<and> v \<noteq> JUndefined \<and>
             snd (snd (init w s)) = [ConnectSnap (Inr u), GetSnap (Inr v)])"
    by (auto simp add: init_def init_try_def Let_def split: sum.splits if_splits)
  have again: "initialized s \<longrightarrow> fst (init w s) = Inr True"
    by (simp add: init_def)
  have history: "run ops (new_provider, []) = (s, cs) \<longrightarrow> fst (init w s) = Inr True \<longrightarrow>
      (\<exists>pre post u v. v \<noteq> JUndefined \<and>
         cs @ snd (snd (init w s)) = pre @ [ConnectSnap (Inr u), GetSnap (Inr v)] @ post)"
  proof (intro impI)
    assume r: "run ops (new_provider, []) = (s, cs)" and t: "fst (init w s) = Inr True"
    show "\<exists>pre post u v. v \<noteq> JUndefined \<and>
         cs @ snd (snd (init w s)) = pre @ [ConnectSnap (Inr u), GetSnap (Inr v)] @ post"
    proof (cases "initialized s")
      case True
      from run_handshake [OF r True] obtain pre post u v where
        h: "v \<noteq> JUndefined" "cs = pre @ [ConnectSnap (Inr u), GetSnap (Inr v)] @ post"
        by blast
      from True have "snd (snd (init w s)) = []" by (simp add: init_def)
      with h show ?thesis by auto
    next
      case False
      with succeeds t obtain u v where
        h: "v \<noteq> JUndefined" "snd (snd (init w s)) = [ConnectSnap (Inr u), GetSnap (Inr v)]"
        by blast
      then have "cs @ snd (snd (init w s)) = cs @ [ConnectSnap (Inr u), GetSnap (Inr v)] @ []"
        by simp
      with h(1) show ?thesis by blast
    qed
  qed
  from total fails succeeds again history show ?thesis by blast
qed

theorem init_returns_boolean_witness:
  "fst (init world_ok new_provider) = Inr True
   \<and> fst (init world_absent new_provider) = Inr False
   \<and> fst (init world_rejected new_provider) = Inr False
   \<and> fst (init world_absent initialized_provider) = Inr True
   \<and> run [(world_ok, Init)] (new_provider, []) =
       (initialized_provider, [ConnectSnap (Inr (JObj [])), GetSnap (Inr (JObj []))])"
  using init_returns_boolean [of world_ok new_provider "[]" "[]"]
    init_returns_boolean [of world_absent new_provider "[]" "[]"]
    init_returns_boolean [of world_rejected new_provider "[]" "[]"]
    init_returns_boolean [of world_absent initialized_provider "[(world_ok, Init)]"
      "[ConnectSnap (Inr (JObj [])), GetSnap (Inr (JObj []))]"]
  by (simp add: init_def init_try_def isMetamaskInstalled_def stub_defs)

text \<open>
  C9. \<^verbatim>\<open>init\<close> is idempotent: when \<^verbatim>\<open>initialized\<close> is already true, it makes no
  handshake call, leaves the provider as it is and returns true, in every world.
\<close>

theorem init_idempotent:
  "initialized s \<Longrightarrow> init w s = (Inr True, s, [])"
  by (simp add: init_def)

theorem init_idempotent_witness:
  "initialized initialized_provider
   \<and> init world_ok initialized_provider = (Inr True, initialized_provider, [])
   \<and> init world_absent initialized_provider = (Inr True, initialized_provider, [])"
  using init_idempotent [of initialized_provider world_ok]
    init_idempotent [of initialized_provider world_absent]
  by (simp add: initialized_provider_def)

subsection \<open>The address invariant\<close>

text \<open>
  C2 (as the claim states it, refuted). \<^verbatim>\<open>setAddress\<close> and \<^verbatim>\<open>setAccount\<close> assign
  without a check: on a new provider either makes the address non-empty while
  \<^verbatim>\<open>initialized\<close> is false and no login was ever made. And without the setters, a login
  whose token signature is rejected fails and still leaves the address it fetched.
\<close>

theorem address_without_login:
  "run [(world_ok, SetAddress ''erd1...'')] (new_provider, []) =
     (setAddress ''erd1...'' new_provider, [])
   \<and> isConnected (setAddress ''erd1...'' new_provider)
   \<and> \<not> initialized (setAddress ''erd1...'' new_provider)
   \<and> isConnected (setAccount (account provider_erd) new_provider)
   \<and> \<not> initialized (setAccount (account provider_erd) new_provider)
   \<and> fst (init world_address_only new_provider) = Inr True
   \<and> fst (snd (init world_address_only new_provider)) = initialized_provider
   \<and> fst (login world_address_only \<lparr>token = Some ''abc''\<rparr> initialized_provider) =
       Inl (Thrown (JStr ''User rejected the request''))
   \<and> isConnected (fst (snd (login world_address_only \<lparr>token = Some ''abc''\<rparr>
         initialized_provider)))"
  by (simp add: method_defs setAccount_def stub_defs)

text \<open>
  C2 (amended). Over every run from a new provider that calls neither \<^verbatim>\<open>setAddress\<close>
  nor \<^verbatim>\<open>setAccount\<close>, whatever the worlds of its calls: when \<^verbatim>\<open>account.address\<close> is
  non-empty, \<^verbatim>\<open>initialized\<close> is true and the address is the answer that an
  \<^verbatim>\<open>mvx_getAddress\<close> request, which only \<^verbatim>\<open>login\<close> sends, resolved to.
\<close>

theorem address_only_after_login:
  assumes "\<forall>(w, c) \<in> set ops. \<not> is_setter c"
    and "run ops (new_provider, []) = (s, cs)"
    and "isConnected s"
  shows "initialized s \<and>
        (\<exists>i. Request (wallet_invokeSnap i mvx_getAddress) (Inr (address (account s))) \<in> set cs)"
proof -
  let ?P = "\<lambda>s cs. isConnected s \<longrightarrow> initialized s \<and>
        (\<exists>i. Request (wallet_invokeSnap i mvx_getAddress) (Inr (address (account s))) \<in> set cs)"
  have "?P s cs"
  proof (rule run_invariant [where P = ?P and ops = ops, OF _ _ assms(2)])
    show "?P new_provider []" by (simp add: new_provider_def isConnected_def empty_account_def)
  next
    fix w c s cs s1 cs1
    assume "(w, c) \<in> set ops" and p: "?P s cs" and st: "step w c s = (s1, cs1)"
    with assms(1) have "\<not> is_setter c" by auto
    from step_address [OF this p st] show "?P s1 (cs @ cs1)" .
  qed
  with assms(3) show ?thesis by simp
qed

theorem address_only_after_login_witness:
  "run [(world_ok, Init), (world_ok, Login \<lparr>token = Some ''abc''\<rparr>)] (new_provider, []) =
     (\<lparr>account = \<lparr>address = JStr ''erd1...'', name = JUndefined,
                  signature = JStr ''deadbeef''\<rparr>, initialized = True\<rparr>,
      [ConnectSnap (Inr (JObj [])), GetSnap (Inr (JObj [])),
       Request (wallet_invokeSnap ''snap'' mvx_getAddress) (Inr (JStr ''erd1...'')),
       Request (wallet_invokeSnap ''snap'' (mvx_signAuthToken ''abc'')) (Inr (JStr ''deadbeef''))])
   \<and> isConnected \<lparr>account = \<lparr>address = JStr ''erd1...'', name = JUndefined,
                  signature = JStr ''deadbeef''\<rparr>, initialized = True\<rparr>
   \<and> (\<exists>i. Request (wallet_invokeSnap i mvx_getAddress) (Inr (JStr ''erd1...'')) \<in>
        set [ConnectSnap (Inr (JObj [])), GetSnap (Inr (JObj [])),
       Request (wallet_invokeSnap ''snap'' mvx_getAddress) (Inr (JStr ''erd1...'')),
       Request (wallet_invokeSnap ''snap'' (mvx_signAuthToken ''abc'')) (Inr (JStr ''deadbeef''))])"
proof -
  have r: "run [(world_ok, Init), (world_ok, Login \<lparr>token = Some ''abc''\<rparr>)] (new_provider, []) =
     (\<lparr>account = \<lparr>address = JStr ''erd1...'', name = JUndefined,
                  signature = JStr ''deadbeef''\<rparr>, initialized = True\<rparr>,
      [ConnectSnap (Inr (JObj [])), GetSnap (Inr (JObj [])),
       Request (wallet_invokeSnap ''snap'' mvx_getAddress) (Inr (JStr ''erd1...'')),
       Request (wallet_invokeSnap ''snap'' (mvx_signAuthToken ''abc'')) (Inr (JStr ''deadbeef''))])"
    by (simp add: method_defs stub_defs)
  have n: "\<forall>(w, c) \<in> set [(world_ok, Init), (world_ok, Login \<lparr>token = Some ''abc''\<rparr>)].
      \<not> is_setter c"
    by simp
  have c: "isConnected \<lparr>account = \<lparr>address = JStr ''erd1...'', name = JUndefined,
                  signature = JStr ''deadbeef''\<rparr>, initialized = True\<rparr>"
    by (simp add: isConnected_def)
  from address_only_after_login [OF n r c] r c show ?thesis by simp
qed

subsection \<open>Before init\<close>

text \<open>
  C3. While \<^verbatim>\<open>initialized\<close> is false, \<^verbatim>\<open>login\<close>, \<^verbatim>\<open>logout\<close> and \<^verbatim>\<open>getAddress\<close> each
  reject with the not-initialised error, send no request and leave the provider, its
  account included, as it was. The message of \<^verbatim>\<open>login\<close> carries the token after the
  common text.
\<close>

theorem not_initialized_rejects:
  "\<not> initialized s \<Longrightarrow>
     login w options s = (Inl (Error (concat_token not_initialised (token options))), s, [])
     \<and> is_NotInitialized (Error (concat_token not_initialised (token options)))
     \<and> logout s = (Inl (Error not_initialised), s, [])
     \<and> getAddress s = (Inl (Error not_initialised), s, [])
     \<and> is_NotInitialized (Error not_initialised)"
  by (simp add: login_def logout_def getAddress_def is_NotInitialized_def concat_token_def)

theorem not_initialized_rejects_witness:
  "\<not> initialized new_provider
   \<and> login world_ok \<lparr>token = Some ''abc''\<rparr> new_provider =
       (Inl (Error ''Metamask provider is not initialised, call init() firstabc''),
        new_provider, [])
   \<and> login world_ok \<lparr>token = None\<rparr> new_provider =
       (Inl (Error ''Metamask provider is not initialised, call init() firstundefined''),
        new_provider, [])
   \<and> logout new_provider =
       (Inl (Error ''Metamask provider is not initialised, call init() first''),
        new_provider, [])
   \<and> getAddress new_provider =
       (Inl (Error ''Metamask provider is not initialised, call init() first''),
        new_provider, [])"
  using not_initialized_rejects [of new_provider world_ok "\<lparr>token = Some ''abc''\<rparr>"]
    not_initialized_rejects [of new_provider world_ok "\<lparr>token = None\<rparr>"]
  by (simp add: new_provider_def not_initialised_def concat_token_def)

subsection \<open>Signing transactions\<close>

text \<open>
  C4. Whatever the transactions and whatever the wallet does, \<^verbatim>\<open>signTransactions\<close>
  rejects with \<^verbatim>\<open>ErrTransactionCancelled\<close> and nothing else: every exception of its
  \<^verbatim>\<open>try\<close> block is replaced by it, in particular a rejected request and an answer that
  is no array or has an element that does not parse into a transaction.
\<close>

theorem signTransactions_cancelled:
  "(\<forall>e. fst (signTransactions w txs) = Inl e \<longrightarrow> e = ErrTransactionCancelled)
   \<and> (\<forall>e. fst (signTransactions_try w txs) = Inl e \<longrightarrow>
          fst (signTransactions w txs) = Inl ErrTransactionCancelled)
   \<and> (\<forall>ps eth e. map_throwing (toPlainObject w) txs = Inr ps \<longrightarrow> ethereum w = Some eth \<longrightarrow>
          request eth (wallet_invokeSnap (defaultSnapOrigin w) (mvx_signTransactions ps)) = Inl e \<longrightarrow>
          fst (signTransactions w txs) = Inl ErrTransactionCancelled)
   \<and> (\<forall>ps eth r e. map_throwing (toPlainObject w) txs = Inr ps \<longrightarrow> ethereum w = Some eth \<longrightarrow>
          request eth (wallet_invokeSnap (defaultSnapOrigin w) (mvx_signTransactions ps)) = Inr r \<longrightarrow>
          map_response w r = Inl e \<longrightarrow>
          fst (signTransactions w txs) = Inl ErrTransactionCancelled)"
  by (auto simp add: signTransactions_def signTransactions_try_def ethereum_request_def Let_def
        split: sum.splits prod.splits option.splits)

theorem signTransactions_cancelled_witness:
  "signTransactions world_rejected [] =
     (Inl ErrTransactionCancelled,
      [Request (wallet_invokeSnap ''snap'' (mvx_signTransactions []))
         (Inl (Thrown (JStr ''User rejected the request'')))])
   \<and> fst (signTransactions_try world_rejected []) =
       Inl (Thrown (JStr ''User rejected the request''))
   \<and> map_response world_malformed (JArr [JNum 1]) = Inl TypeError
   \<and> fst (signTransactions world_malformed [''tx1'']) = Inl ErrTransactionCancelled
   \<and> signTransactions world_absent [''tx1''] = (Inl ErrTransactionCancelled, [])"
  using signTransactions_cancelled [of world_rejected "[]"]
    signTransactions_cancelled [of world_malformed "[''tx1'']"]
    signTransactions_cancelled [of world_absent "[''tx1'']"]
  by (simp add: method_defs stub_defs)

text \<open>
  C5. When the batch call \<^verbatim>\<open>signTransactions([tx])\<close> returns a list,
  \<^verbatim>\<open>signTransaction(tx)\<close> rejects with \<^verbatim>\<open>ErrCannotSignSingleTransaction\<close> if the list has
  not exactly one element, and returns the one element itself if it has.
\<close>

theorem signTransaction_single:
  "signTransactions w [tx] = (Inr res, cs) \<Longrightarrow>
     (length res \<noteq> 1 \<longrightarrow> signTransaction w tx = (Inl ErrCannotSignSingleTransaction, cs))
     \<and> (\<forall>t. res = [t] \<longrightarrow> signTransaction w tx = (Inr t, cs))"
  by (simp add: signTransaction_def)

theorem signTransaction_single_witness:
  "signTransactions world_ok [''tx1''] =
     (Inr [''tx1''],
      [Request (wallet_invokeSnap ''snap'' (mvx_signTransactions [JStr ''tx1'']))
         (Inr (JArr [JStr ''tx1'']))])
   \<and> fst (signTransaction world_ok ''tx1'') = Inr ''tx1''
   \<and> fst (signTransactions world_twice [''tx1'']) = Inr [''tx1'', ''tx1'']
   \<and> fst (signTransaction world_twice ''tx1'') = Inl ErrCannotSignSingleTransaction
   \<and> fst (signTransactions world_twice []) = Inr []"
proof -
  have one: "signTransactions world_ok [''tx1''] =
     (Inr [''tx1''],
      [Request (wallet_invokeSnap ''snap'' (mvx_signTransactions [JStr ''tx1'']))
         (Inr (JArr [JStr ''tx1'']))])"
    by (simp add: method_defs stub_defs)
  have two: "signTransactions world_twice [''tx1''] =
     (Inr [''tx1'', ''tx1''],
      [Request (wallet_invokeSnap ''snap'' (mvx_signTransactions [JStr ''tx1'']))
         (Inr (JArr [JStr ''tx1'', JStr ''tx1'']))])"
    by (simp add: method_defs stub_defs)
  have none: "fst (signTransactions world_twice []) = Inr []"
    by (simp add: method_defs stub_defs)
  from signTransaction_single [OF one] signTransaction_single [OF two] one two none
  show ?thesis by simp
qed

subsection \<open>Signing a message\<close>

text \<open>
  C6. With the empty string as \<^verbatim>\<open>account.address\<close>, \<^verbatim>\<open>signMessage\<close> rejects with
  \<^verbatim>\<open>ErrAccountNotConnected\<close> for every message and in every world, the extension
  present or not, and sends no request.
\<close>

theorem signMessage_not_connected:
  "address (account s) = JStr [] \<Longrightarrow> signMessage w msg s = (Inl ErrAccountNotConnected, [])"
  by (simp add: signMessage_def ensureConnected_def Let_def)

theorem signMessage_not_connected_witness:
  "address (account new_provider) = JStr []
   \<and> isMetamaskInstalled world_ok
   \<and> signMessage world_ok message_hi new_provider = (Inl ErrAccountNotConnected, [])
   \<and> \<not> isMetamaskInstalled world_absent
   \<and> signMessage world_absent message_hi new_provider = (Inl ErrAccountNotConnected, [])"
  using signMessage_not_connected [of new_provider world_ok message_hi]
    signMessage_not_connected [of new_provider world_absent message_hi]
  by (simp add: isMetamaskInstalled_def stub_defs)

text \<open>
  C7 (as the claim states it, refuted). The provider is connected, the extension is
  present and the request resolves with the hexadecimal string \<^verbatim>\<open>aa\<close>. First, the
  message has no address and the address of the session is \<^verbatim>\<open>abc\<close>, which
  \<^verbatim>\<open>Address.fromBech32\<close> refuses: \<^verbatim>\<open>signMessage\<close> returns no message, it rejects with
  what \<^verbatim>\<open>Address.fromBech32\<close> threw, after the request was sent. Second, the message has
  an address and the version 0: the message returned has the version 1, not the version
  of the message given.
\<close>

theorem signMessage_bad_session_address:
  "isConnected provider_abc
   \<and> isMetamaskInstalled world_ok
   \<and> msg_address message_hi = None
   \<and> Address_fromBech32 world_ok (address (account provider_abc)) =
       Inl (Thrown (JStr ''bad address''))
   \<and> signMessage world_ok message_hi provider_abc =
       (Inl (Thrown (JStr ''bad address'')),
        [Request (wallet_invokeSnap ''snap'' (mvx_signMessage ''hi'')) (Inr (JStr ''aa''))])
   \<and> version message_v0 = 0
   \<and> signMessage world_ok message_v0 provider_abc =
       (Inr \<lparr>data = [104, 105], msg_address = Some ''erd1other'', signer = ''metamask'',
             version = 1, msg_signature = Some [0xAA]\<rparr>,
        [Request (wallet_invokeSnap ''snap'' (mvx_signMessage ''hi'')) (Inr (JStr ''aa''))])"
  by (simp add: method_defs stub_defs char_of_hi)

text \<open>
  C7 (amended). In a connected state with the extension present, when the request
  resolves with the string \<open>h\<close>: one request is sent, with the data as text, and then the
  address is resolved, to the address of the message when it has one and to
  \<^verbatim>\<open>Address.fromBech32\<close> of the address of the session otherwise. When the address
  resolves, \<^verbatim>\<open>signMessage\<close> returns a new message with the data of the given one, the
  resolved address, the signer \<^verbatim>\<open>metamask\<close>, the version of the given one (1, the
  default of the library, when that version is 0) and, as signature, the bytes that \<open>h\<close>
  decodes to from hexadecimal; \<^verbatim>\<open>aa\<close> decodes to the one byte \<open>0xAA\<close>. When
  \<^verbatim>\<open>Address.fromBech32\<close> throws, \<^verbatim>\<open>signMessage\<close> rejects with that error, the request
  having been sent.
\<close>

theorem signMessage_result:
  "isConnected s \<Longrightarrow> isMetamaskInstalled w \<Longrightarrow> ethereum w = Some eth \<Longrightarrow>
   request eth (wallet_invokeSnap (defaultSnapOrigin w)
     (mvx_signMessage (Buffer_toString w (data msg)))) = Inr (JStr h) \<Longrightarrow>
   (\<forall>a. resolve_address w msg s = Inr a \<longrightarrow>
      signMessage w msg s =
        (Inr \<lparr>data = data msg, msg_address = Some a, signer = ''metamask'',
              version = (if version msg = 0 then 1 else version msg),
              msg_signature = Some (hex_decode h)\<rparr>,
         [Request (wallet_invokeSnap (defaultSnapOrigin w)
            (mvx_signMessage (Buffer_toString w (data msg)))) (Inr (JStr h))]))
   \<and> (\<forall>e. resolve_address w msg s = Inl e \<longrightarrow>
      signMessage w msg s =
        (Inl e,
         [Request (wallet_invokeSnap (defaultSnapOrigin w)
            (mvx_signMessage (Buffer_toString w (data msg)))) (Inr (JStr h))]))
   \<and> (\<forall>m. msg_address msg = Some m \<longrightarrow> resolve_address w msg s = Inr m)
   \<and> (msg_address msg = None \<longrightarrow>
        resolve_address w msg s = Address_fromBech32 w (address (account s)))
   \<and> hex_decode ''aa'' = [0xAA]"
  by (auto simp add: signMessage_def ensureConnected_def isConnected_def ethereum_request_def
      Let_def resolve_address_def Buffer_from_hex_def unhex_def new_Message_def
      DEFAULT_MESSAGE_VERSION_def)

theorem signMessage_result_witness:
  "isConnected provider_erd
   \<and> isMetamaskInstalled world_ok
   \<and> signMessage world_ok message_hi provider_erd =
       (Inr \<lparr>data = [104, 105], msg_address = Some ''erd1...'', signer = ''metamask'',
             version = 1, msg_signature = Some [0xAA]\<rparr>,
        [Request (wallet_invokeSnap ''snap'' (mvx_signMessage ''hi'')) (Inr (JStr ''aa''))])
   \<and> isConnected provider_abc
   \<and> resolve_address world_ok message_hi provider_abc = Inl (Thrown (JStr ''bad address''))
   \<and> signMessage world_ok message_hi provider_abc =
       (Inl (Thrown (JStr ''bad address'')),
        [Request (wallet_invokeSnap ''snap'' (mvx_signMessage ''hi'')) (Inr (JStr ''aa''))])
   \<and> fst (signMessage world_ok message_v0 provider_abc) =
       Inr \<lparr>data = [104, 105], msg_address = Some ''erd1other'', signer = ''metamask'',
            version = 1, msg_signature = Some [0xAA]\<rparr>"
proof -
  have c: "isConnected provider_erd" "isConnected provider_abc"
    by (simp_all add: isConnected_def stub_defs)
  have m: "isMetamaskInstalled world_ok"
    by (simp add: isMetamaskInstalled_def stub_defs)
  have e: "ethereum world_ok = Some (wallet answers_ok)"
    by (simp add: stub_defs)
  have q: "request (wallet answers_ok) (wallet_invokeSnap (defaultSnapOrigin world_ok)
      (mvx_signMessage (Buffer_toString world_ok (data message_hi)))) = Inr (JStr ''aa'')"
    "request (wallet answers_ok) (wallet_invokeSnap (defaultSnapOrigin world_ok)
      (mvx_signMessage (Buffer_toString world_ok (data message_v0)))) = Inr (JStr ''aa'')"
    by (simp_all add: stub_defs)
  have a: "resolve_address world_ok message_hi provider_erd = Inr ''erd1...''"
    "resolve_address world_ok message_hi provider_abc = Inl (Thrown (JStr ''bad address''))"
    "resolve_address world_ok message_v0 provider_abc = Inr ''erd1other''"
    by (simp_all add: resolve_address_def stub_defs)
  from signMessage_result [OF c(1) m e q(1)] signMessage_result [OF c(2) m e q(1)]
    signMessage_result [OF c(2) m e q(2)] c m a
  show ?thesis by (simp add: stub_defs char_of_hi)
qed

subsection \<open>logout and login\<close>

text \<open>
  C8. On an initialised provider \<^verbatim>\<open>logout\<close> puts the empty account in place (empty
  address, no name, no signature), returns true and sends nothing; after it
  \<^verbatim>\<open>isConnected\<close> is false and \<^verbatim>\<open>getAddress\<close> returns the empty string.
\<close>

theorem logout_resets_account:
  "initialized s \<Longrightarrow>
     (\<exists>s'. logout s = (Inr True, s', []) \<and> account s' = empty_account
        \<and> address (account s') = JStr [] \<and> name (account s') = JUndefined
        \<and> signature (account s') = JUndefined
        \<and> initialized s'
        \<and> \<not> isConnected s' \<and> getAddress s' = (Inr (JStr []), s', []))"
  by (simp add: logout_def empty_account_def isConnected_def getAddress_def)

theorem logout_resets_account_witness:
  "initialized provider_erd
   \<and> isConnected provider_erd
   \<and> logout provider_erd = (Inr True, initialized_provider, [])
   \<and> \<not> isConnected initialized_provider
   \<and> getAddress initialized_provider = (Inr (JStr []), initialized_provider, [])"
  using logout_resets_account [of provider_erd]
  by (auto simp add: logout_def isConnected_def stub_defs)

text \<open>
  C10. \<^verbatim>\<open>login\<close> with a token is not atomic. On an initialised provider, when the
  address request resolves with \<open>a\<close> and the request that signs the (non-empty) token
  rejects with \<open>e\<close>, \<^verbatim>\<open>login\<close> rejects with \<open>e\<close> itself, and the provider it leaves has
  \<open>a\<close> as \<^verbatim>\<open>account.address\<close> and the signature it had before.
\<close>

theorem login_not_atomic:
  "initialized s \<Longrightarrow> ethereum w = Some eth \<Longrightarrow> t \<noteq> [] \<Longrightarrow>
   request eth (wallet_invokeSnap (defaultSnapOrigin w) mvx_getAddress) = Inr a \<Longrightarrow>
   request eth (wallet_invokeSnap (defaultSnapOrigin w) (mvx_signAuthToken t)) = Inl e \<Longrightarrow>
   login w \<lparr>token = Some t\<rparr> s =
     (Inl e, s\<lparr>account := (account s)\<lparr>address := a\<rparr>\<rparr>,
      [Request (wallet_invokeSnap (defaultSnapOrigin w) mvx_getAddress) (Inr a),
       Request (wallet_invokeSnap (defaultSnapOrigin w) (mvx_signAuthToken t)) (Inl e)])
   \<and> address (account (fst (snd (login w \<lparr>token = Some t\<rparr> s)))) = a
   \<and> signature (account (fst (snd (login w \<lparr>token = Some t\<rparr> s)))) = signature (account s)"
  by (simp add: login_def ethereum_request_def Let_def)

theorem login_not_atomic_witness:
  "initialized initialized_provider
   \<and> address (account initialized_provider) = JStr []
   \<and> login world_address_only \<lparr>token = Some ''abc''\<rparr> initialized_provider =
       (Inl (Thrown (JStr ''User rejected the request'')),
        initialized_provider\<lparr>account := (account initialized_provider)
           \<lparr>address := JStr ''erd1...''\<rparr>\<rparr>,
        [Request (wallet_invokeSnap ''snap'' mvx_getAddress) (Inr (JStr ''erd1...'')),
         Request (wallet_invokeSnap ''snap'' (mvx_signAuthToken ''abc''))
           (Inl (Thrown (JStr ''User rejected the request'')))])"
proof -
  have i: "initialized initialized_provider" by (simp add: stub_defs)
  have e: "ethereum world_address_only = Some (wallet answers_address_only)"
    by (simp add: stub_defs)
  have t: "''abc'' \<noteq> []" by simp
  have q1: "request (wallet answers_address_only)
      (wallet_invokeSnap (defaultSnapOrigin world_address_only) mvx_getAddress) =
      Inr (JStr ''erd1...'')"
    by (simp add: stub_defs)
  have q2: "request (wallet answers_address_only)
      (wallet_invokeSnap (defaultSnapOrigin world_address_only) (mvx_signAuthToken ''abc'')) =
      Inl (Thrown (JStr ''User rejected the request''))"
    by (simp add: stub_defs)
  from login_not_atomic [OF i e t q1 q2] i show ?thesis by (simp add: stub_defs)
qed

end
